theory Spec2Isabelle
  imports Main "HOL-Library.Sublist" "HOL-Library.Multiset" "HOL-Library.Word"
begin

section \<open>The DevDigger database as the reader sees it\<close>

text \<open>
  \<^verbatim>\<open>use_devdigger_db.py\<close> reads an SQLite database through \<^verbatim>\<open>sqlite3\<close>. A table
  is the list of its rows in the order in which a scan visits them, and a query is a
  function from the tables to the list of rows that \<^verbatim>\<open>fetchall()\<close> hands back.
\<close>

subsection \<open>Values and rows\<close>

text \<open>
  Modelled from the spec: the schema (the \<^verbatim>\<open>CREATE TABLE\<close> statements belong to the
  crawler and are not part of this repository). Its section 3 lists the columns. An
  identifier is an integer or a text; both are kept as stored, so an integer and a text
  are never equal. A text is the list of its characters, each character being its
  Unicode code point: what a Python \<^verbatim>\<open>str\<close> holds and what SQLite compares. A
  creation timestamp is an integer. A blob is a list of bytes.
\<close>

type_synonym str = "nat list"

text \<open>The text that a literal of the source denotes.\<close>

definition str_of :: "string \<Rightarrow> str" where
  "str_of s = map of_char s"

datatype ident = IdInt int | IdText str

type_synonym blob = "8 word list"

record source =
  s_id :: ident
  s_type :: str
  s_url :: str
  s_title :: "str option"
  s_crawl_status :: str
  s_created_at :: int

record document =
  d_id :: ident
  d_source_id :: ident
  d_content :: str
  d_chunk_index :: int
  d_embedding :: "blob option"

record code_example =
  c_id :: ident
  c_source_id :: ident
  c_language :: str
  c_description :: "str option"
  c_code :: str

record collection =
  k_id :: ident

record database =
  sources :: "source list"
  documents :: "document list"
  code_examples :: "code_example list"
  collections :: "collection list"

datatype error = DatabaseError | OperationalError | ValueError

subsection \<open>SQL building blocks\<close>

text \<open>
  \<^verbatim>\<open>FROM a JOIN b ON cond\<close>: for every row of \<open>a\<close>, in order, the rows of \<open>b\<close> that
  satisfy the condition.
\<close>

definition join :: "'a list \<Rightarrow> 'b list \<Rightarrow> ('a \<Rightarrow> 'b \<Rightarrow> bool) \<Rightarrow> ('a \<times> 'b) list" where
  "join as bs cond = concat (map (\<lambda>a. map (Pair a) (filter (cond a) bs)) as)"

text \<open>
  \<^verbatim>\<open>LIMIT n\<close>: the first \<open>n\<close> rows; SQLite reads a negative \<open>n\<close> as no limit at all.
\<close>

definition sql_limit :: "int \<Rightarrow> 'a list \<Rightarrow> 'a list" where
  "sql_limit n rows = (if n < 0 then rows else take (nat n) rows)"

text \<open>
  SQLite's \<^verbatim>\<open>LIKE\<close> with its defaults (no \<^verbatim>\<open>ESCAPE\<close>, no
  \<^verbatim>\<open>PRAGMA case_sensitive_like\<close>; the source sets neither). SQLite reads the
  pattern and the text as C strings: each ends before its first NUL character. In what
  is left, \<^verbatim>\<open>%\<close> (code 37) stands for any run of characters, \<^verbatim>\<open>_\<close> (code 95) for
  any one character, and every other character for itself, where the ASCII letters
  match in either case.
\<close>

definition c_string :: "str \<Rightarrow> str" where
  "c_string t = takeWhile (\<lambda>c. c \<noteq> 0) t"

definition ascii_lower :: "nat \<Rightarrow> nat" where
  "ascii_lower c = (if 65 \<le> c \<and> c \<le> 90 then c + 32 else c)"

fun like_match :: "str \<Rightarrow> str \<Rightarrow> bool" where
  "like_match [] [] = True"
| "like_match [] (c # s) = False"
| "like_match (p # ps) [] = (p = 37 \<and> like_match ps [])"
| "like_match (p # ps) (c # s) =
     (if p = 37 then like_match ps (c # s) \<or> like_match (p # ps) s
      else (p = 95 \<or> ascii_lower p = ascii_lower c) \<and> like_match ps s)"

definition sqlite_like :: "str \<Rightarrow> str \<Rightarrow> bool" where
  "sqlite_like pattern t = like_match (c_string pattern) (c_string t)"


section \<open>The queries of \<^verbatim>\<open>DevDiggerDB\<close>\<close>

subsection \<open>\<^verbatim>\<open>search\<close>\<close>

text \<open>
  \<^verbatim>\<open>
  SELECT d.id, d.content, d.source_id, s.url, s.title
  FROM documents d JOIN sources s ON d.source_id = s.id
  WHERE d.content LIKE ?  LIMIT ?          -- (f"%{query}%", limit)
  \<close>
\<close>

record search_row =
  r_id :: ident
  r_content :: str
  r_source_id :: ident
  r_url :: str
  r_title :: "str option"

definition search_row_of :: "document \<times> source \<Rightarrow> search_row" where
  "search_row_of ds =
     \<lparr>r_id = d_id (fst ds), r_content = d_content (fst ds),
      r_source_id = d_source_id (fst ds), r_url = s_url (snd ds), r_title = s_title (snd ds)\<rparr>"

definition search :: "database \<Rightarrow> str \<Rightarrow> int \<Rightarrow> search_row list" where
  "search db query limit =
     map search_row_of
       (sql_limit limit
          (filter (\<lambda>ds. sqlite_like (37 # query @ [37]) (d_content (fst ds)))
             (join (documents db) (sources db) (\<lambda>d s. d_source_id d = s_id s))))"

subsection \<open>\<^verbatim>\<open>get_stats\<close>\<close>

text \<open>
  \<^verbatim>\<open>SELECT COUNT(*) as count FROM {table}\<close>, for each of the four names in turn. A
  name that is no table of the database makes SQLite raise.
\<close>

definition count_rows :: "database \<Rightarrow> string \<Rightarrow> error + int" where
  "count_rows db table =
     (if table = ''sources'' then Inr (int (length (sources db)))
      else if table = ''documents'' then Inr (int (length (documents db)))
      else if table = ''code_examples'' then Inr (int (length (code_examples db)))
      else if table = ''collections'' then Inr (int (length (collections db)))
      else Inl OperationalError)"

definition tables :: "string list" where
  "tables = [''sources'', ''documents'', ''code_examples'', ''collections'']"

fun get_stats_loop :: "database \<Rightarrow> string list \<Rightarrow> (string \<rightharpoonup> int) \<Rightarrow> error + (string \<rightharpoonup> int)" where
  "get_stats_loop db [] stats = Inr stats"
| "get_stats_loop db (table # rest) stats =
     (case count_rows db table of
        Inl e \<Rightarrow> Inl e
      | Inr n \<Rightarrow> get_stats_loop db rest (stats(table \<mapsto> n)))"

definition get_stats :: "database \<Rightarrow> error + (string \<rightharpoonup> int)" where
  "get_stats db = get_stats_loop db tables Map.empty"

subsection \<open>\<^verbatim>\<open>list_sources\<close>\<close>

text \<open>
  \<^verbatim>\<open>SELECT id, type, url, title, crawl_status, created_at FROM sources ORDER BY created_at DESC\<close>:
  all six columns of every row, largest timestamp first.
\<close>

definition list_sources :: "database \<Rightarrow> source list" where
  "list_sources db = sort_key (\<lambda>s. - s_created_at s) (sources db)"

subsection \<open>\<^verbatim>\<open>get_documents\<close>\<close>

text \<open>
  The argument is a Python value: \<^verbatim>\<open>None\<close> (the default), an integer or a string.
  \<^verbatim>\<open>if source_id:\<close> asks for its truth value, which is false for \<^verbatim>\<open>None\<close>,
  \<^verbatim>\<open>0\<close> and \<^verbatim>\<open>''\<close>.
\<close>

fun truthy :: "ident \<Rightarrow> bool" where
  "truthy (IdInt n) = (n \<noteq> 0)"
| "truthy (IdText t) = (t \<noteq> [])"

definition get_documents :: "database \<Rightarrow> ident option \<Rightarrow> document list" where
  "get_documents db source_id =
     (case source_id of
        None \<Rightarrow> documents db
      | Some sid \<Rightarrow>
          if truthy sid
          then sort_key d_chunk_index (filter (\<lambda>d. d_source_id d = sid) (documents db))
          else documents db)"

subsection \<open>\<^verbatim>\<open>get_code_examples\<close>\<close>

record code_example_row =
  x_id :: ident
  x_source_id :: ident
  x_language :: str
  x_description :: "str option"
  x_code :: str
  x_source_url :: str

definition code_example_row_of :: "code_example \<times> source \<Rightarrow> code_example_row" where
  "code_example_row_of cs =
     \<lparr>x_id = c_id (fst cs), x_source_id = c_source_id (fst cs),
      x_language = c_language (fst cs), x_description = c_description (fst cs),
      x_code = c_code (fst cs), x_source_url = s_url (snd cs)\<rparr>"

definition get_code_examples :: "database \<Rightarrow> str option \<Rightarrow> code_example_row list" where
  "get_code_examples db language =
     (let joined = join (code_examples db) (sources db) (\<lambda>c s. c_source_id c = s_id s) in
      case language of
        None \<Rightarrow> map code_example_row_of joined
      | Some l \<Rightarrow>
          if l \<noteq> []
          then map code_example_row_of (filter (\<lambda>cs. c_language (fst cs) = l) joined)
          else map code_example_row_of joined)"

subsection \<open>\<^verbatim>\<open>get_embeddings\<close>\<close>














subsection \<open>\<^verbatim>\<open>export_to_json\<close>\<close>

text \<open>
  \<^verbatim>\<open>json.dump(data, f, indent=2, default=str)\<close> prints a JSON document; the file is
  kept as the JSON value that its text denotes, which is what parsing the text gives
  back. A row is a dictionary from column names to values, hence an object; a value
  that \<^verbatim>\<open>json\<close> cannot print (here only a blob) goes through \<^verbatim>\<open>str\<close> first.
\<close>

datatype json = JNull | JInt int | JString str | JArray "json list" | JObject "(string \<times> json) list"

text \<open>
  A file holds the SQLite database or an exported JSON document. The file system maps
  the path of a file to what the file holds; \<^verbatim>\<open>open(path, 'w')\<close> followed by the
  dump replaces whatever was at \<open>path\<close>.
\<close>

datatype contents = DatabaseFile database | JsonFile json

type_synonym filesystem = "string \<rightharpoonup> contents"

text \<open>
  \<^verbatim>\<open>str\<close> of a bytes object is its \<^verbatim>\<open>repr\<close>: \<^verbatim>\<open>b'...'\<close>, in double quotes when the
  bytes hold a single quote and no double quote, with backslash escapes for the quote,
  the backslash, tab, newline and carriage return, and \<^verbatim>\<open>\xhh\<close> for every other byte
  outside the printable ASCII range.
\<close>

definition hex_digit :: "nat \<Rightarrow> char" where
  "hex_digit n = ''0123456789abcdef'' ! (n mod 16)"

definition repr_byte :: "nat \<Rightarrow> nat \<Rightarrow> string" where
  "repr_byte quote n =
     (if n = quote \<or> n = 92 then [CHR 0x5C, char_of n]
      else if n = 9 then [CHR 0x5C, CHR ''t'']
      else if n = 10 then [CHR 0x5C, CHR ''n'']
      else if n = 13 then [CHR 0x5C, CHR ''r'']
      else if n < 32 \<or> 127 \<le> n then [CHR 0x5C, CHR ''x'', hex_digit (n div 16), hex_digit n]
      else [char_of n])"

definition str_bytes :: "blob \<Rightarrow> string" where
  "str_bytes b =
     (let ns = map unat b;
          quote = (if 39 \<in> set ns \<and> 34 \<notin> set ns then 34 else 39)
      in CHR ''b'' # char_of quote # concat (map (repr_byte quote) ns) @ [char_of quote])"

fun json_of_ident :: "ident \<Rightarrow> json" where
  "json_of_ident (IdInt n) = JInt n"
| "json_of_ident (IdText t) = JString t"

fun json_of_text :: "str option \<Rightarrow> json" where
  "json_of_text None = JNull"
| "json_of_text (Some t) = JString t"

definition json_of_source :: "source \<Rightarrow> json" where
  "json_of_source s =
     JObject [(''id'', json_of_ident (s_id s)), (''type'', JString (s_type s)),
              (''url'', JString (s_url s)), (''title'', json_of_text (s_title s)),
              (''crawl_status'', JString (s_crawl_status s)), (''created_at'', JInt (s_created_at s))]"

definition json_of_document :: "document \<Rightarrow> json" where
  "json_of_document d =
     JObject [(''id'', json_of_ident (d_id d)), (''source_id'', json_of_ident (d_source_id d)),
              (''content'', JString (d_content d)), (''chunk_index'', JInt (d_chunk_index d)),
              (''embedding'', json_of_text (map_option (str_of \<circ> str_bytes) (d_embedding d)))]"

definition json_of_code_example_row :: "code_example_row \<Rightarrow> json" where
  "json_of_code_example_row x =
     JObject [(''id'', json_of_ident (x_id x)), (''source_id'', json_of_ident (x_source_id x)),
              (''language'', JString (x_language x)), (''description'', json_of_text (x_description x)),
              (''code'', JString (x_code x)), (''source_url'', JString (x_source_url x))]"

definition export_to_json :: "database \<Rightarrow> string \<Rightarrow> filesystem \<Rightarrow> string \<times> filesystem" where
  "export_to_json db output_path fs =
     (let data = JObject
            [(''sources'', JArray (map json_of_source (list_sources db))),
             (''documents'', JArray (map json_of_document (get_documents db None))),
             (''code_examples'', JArray (map json_of_code_example_row (get_code_examples db None)))]
      in (output_path, fs(output_path \<mapsto> JsonFile data)))"

text \<open>What a reader of the exported file looks at: the keys of the top-level object and
  the array stored under a key.\<close>

fun object_keys :: "json \<Rightarrow> string list option" where
  "object_keys (JObject kvs) = Some (map fst kvs)"
| "object_keys _ = None"

fun array_at :: "json \<Rightarrow> string \<Rightarrow> json list option" where
  "array_at (JObject kvs) k = (case map_of kvs k of Some (JArray xs) \<Rightarrow> Some xs | _ \<Rightarrow> None)"
| "array_at _ k = None"

subsection \<open>Method calls on a reader\<close>








subsection \<open>The entry point\<close>

text \<open>
  What the script does when run, as the list of its actions and its exit code. The
  file at \<^verbatim>\<open>DB_PATH\<close> is either absent (\<open>None\<close>) or holds a database.
  \<^verbatim>\<open>
  if not DB_PATH.exists():
      print(...); print(...); exit(1)
  example_basic_usage()
  \<close>
  An exception that nothing catches ends the process with exit code 1. The actions are
  a printed line, the opening of the connection, a \<^verbatim>\<open>SELECT\<close> statement (named by
  the table its \<^verbatim>\<open>FROM\<close> clause starts with) and the closing of the connection.
\<close>

datatype event = Print | Connect | Execute string | Close

definition example_basic_usage :: "database \<Rightarrow> event list \<times> error option" where
  "example_basic_usage db =
     (let start = [Print, Print, Print, Connect] @ map Execute tables in
      case get_stats db of
        Inl e \<Rightarrow> (start, Some e)
      | Inr stats \<Rightarrow>
          (let shown = Print # map (\<lambda>t. Print) (filter (\<lambda>t. stats t \<noteq> None) tables) in
           if stats ''sources'' = Some 0
           then (start @ shown @ [Print], None)
           else (start @ shown
                 @ [Print, Execute ''sources''] @ map (\<lambda>s. Print) (take 5 (list_sources db))
                 @ [Print, Execute ''documents''] @ map (\<lambda>r. Print) (search db (str_of ''react'') 3)
                 @ [Print, Execute ''code_examples'']
                 @ map (\<lambda>x. Print) (take 3 (get_code_examples db None))
                 @ [Close], None)))"

definition main :: "database option \<Rightarrow> event list \<times> int" where
  "main file =
     (case file of
        None \<Rightarrow> ([Print, Print], 1)
      | Some db \<Rightarrow>
          (case example_basic_usage db of
             (trace, None) \<Rightarrow> (trace, 0)
           | (trace, Some e) \<Rightarrow> (trace, 1)))"

fun is_query :: "event \<Rightarrow> bool" where
  "is_query (Execute t) = True"
| "is_query _ = False"

section \<open>Example databases\<close>

definition web_source :: "int \<Rightarrow> int \<Rightarrow> source" where
  "web_source i t =
     \<lparr>s_id = IdInt i, s_type = str_of ''website'', s_url = str_of ''https://example.org'',
      s_title = None, s_crawl_status = str_of ''completed'', s_created_at = t\<rparr>"

definition chunk :: "int \<Rightarrow> int \<Rightarrow> int \<Rightarrow> string \<Rightarrow> blob option \<Rightarrow> document" where
  "chunk i sid k content emb =
     \<lparr>d_id = IdInt i, d_source_id = IdInt sid, d_content = str_of content, d_chunk_index = k,
      d_embedding = emb\<rparr>"

definition demo_db :: database where
  "demo_db =
     \<lparr>sources = [web_source 1 10, web_source 0 30, web_source 2 20],
      documents =
        [chunk 1 1 1 ''React hooks'' (Some [0, 0, 128, 63, 0, 0, 0, 64]),
         chunk 2 1 0 ''Intro to react'' None,
         chunk 3 0 0 ''Vue'' (Some [])],
      code_examples =
        [\<lparr>c_id = IdInt 1, c_source_id = IdInt 2, c_language = str_of ''python'',
          c_description = None, c_code = str_of ''pass''\<rparr>],
      collections = [\<lparr>k_id = IdInt 1\<rparr>]\<rparr>"


section \<open>Properties of the SQL building blocks\<close>




lemma length_sql_limit: "0 \<le> n \<Longrightarrow> length (sql_limit n rows) \<le> nat n"
  by (simp add: sql_limit_def)






text \<open>A query that starts with NUL leaves the pattern \<^verbatim>\<open>%\<close>, which every text matches.\<close>

lemma like_match_percent: "like_match [37] t"
  by (induction t) simp_all

lemma sqlite_like_nul_query: "sqlite_like (37 # (0 # q) @ [37]) t"
  by (simp add: sqlite_like_def c_string_def like_match_percent)

section \<open>\<^verbatim>\<open>search\<close>: what the returned rows contain, and how many there are\<close>




text \<open>
  C2. For a limit that is not negative, \<^verbatim>\<open>search(query, limit)\<close> returns at most
  \<open>limit\<close> rows.
\<close>

theorem search_limit: "0 \<le> limit \<Longrightarrow> length (search db query limit) \<le> nat limit"
  by (simp add: search_def length_sql_limit)

theorem search_limit_witness:
  "(0::int) \<le> 1 \<and> length (search demo_db (str_of ''react'') 1) \<le> nat 1"
  using search_limit[of 1 demo_db "str_of ''react''"] by simp

section \<open>\<^verbatim>\<open>get_documents\<close>: the filter and when it applies\<close>

text \<open>
  C3, as the code has it. For every source identifier that Python reads as true (an
  integer other than 0, a string other than the empty one), every row that
  \<^verbatim>\<open>get_documents(source_id)\<close> returns has that \<open>source_id\<close>, the rows come in
  non-decreasing \<open>chunk_index\<close>, and they are exactly the documents with that
  \<open>source_id\<close>, each as often as the table holds it.
\<close>

theorem get_documents_filtered:
  assumes "truthy sid"
  shows "(\<forall>d \<in> set (get_documents db (Some sid)). d_source_id d = sid) \<and>
         sorted (map d_chunk_index (get_documents db (Some sid))) \<and>
         mset (get_documents db (Some sid)) =
           mset (filter (\<lambda>d. d_source_id d = sid) (documents db))"
  using assms by (simp add: get_documents_def)

theorem get_documents_filtered_witness:
  "truthy (IdInt 1) \<and>
   get_documents demo_db (Some (IdInt 1)) =
     [chunk 2 1 0 ''Intro to react'' None,
      chunk 1 1 1 ''React hooks'' (Some [0, 0, 128, 63, 0, 0, 0, 64])] \<and>
   sorted (map d_chunk_index (get_documents demo_db (Some (IdInt 1))))"
proof -
  have "get_documents demo_db (Some (IdInt 1)) =
     [chunk 2 1 0 ''Intro to react'' None,
      chunk 1 1 1 ''React hooks'' (Some [0, 0, 128, 63, 0, 0, 0, 64])]"
    by (simp add: get_documents_def demo_db_def chunk_def)
  with get_documents_filtered[of "IdInt 1" demo_db] show ?thesis by simp
qed

text \<open>
  C3 as stated, for every source identifier, fails at the identifier 0:
  \<^verbatim>\<open>get_documents(0)\<close> returns all three documents of the example database, two of
  them with \<open>source_id\<close> 1, although one document only has \<open>source_id\<close> 0.
\<close>

theorem get_documents_zero_counterexample:
  "map d_source_id (get_documents demo_db (Some (IdInt 0))) = [IdInt 1, IdInt 1, IdInt 0] \<and>
   map d_source_id (filter (\<lambda>d. d_source_id d = IdInt 0) (documents demo_db)) = [IdInt 0]"
  by (simp add: get_documents_def demo_db_def chunk_def)

text \<open>
  C10. When the argument of \<^verbatim>\<open>get_documents\<close> is \<^verbatim>\<open>None\<close>, 0 or the empty string,
  the call returns the whole \<open>documents\<close> table as it stands: nothing is filtered and
  nothing is sorted, also when some document has that very \<open>source_id\<close>.
\<close>

theorem get_documents_falsy:
  assumes "case source_id of None \<Rightarrow> True | Some sid \<Rightarrow> \<not> truthy sid"
  shows "get_documents db source_id = documents db"
  using assms by (simp add: get_documents_def split: option.splits)

text \<open>In the example database a document has \<open>source_id\<close> 0, and the table is not in the
  order of \<open>chunk_index\<close>.\<close>

theorem get_documents_falsy_witness:
  "\<not> truthy (IdInt 0) \<and>
   get_documents demo_db (Some (IdInt 0)) = documents demo_db \<and>
   map d_source_id (documents demo_db) = [IdInt 1, IdInt 1, IdInt 0] \<and>
   map d_chunk_index (documents demo_db) = [1, 0, 0]"
  using get_documents_falsy[of "Some (IdInt 0)" demo_db]
  by (simp add: demo_db_def chunk_def)

section \<open>\<^verbatim>\<open>list_sources\<close>: every source, newest first\<close>

lemma sorted_map_uminus:
  "sorted (map (\<lambda>x. - f x) xs) = sorted_wrt (\<lambda>a b. f b \<le> (f a :: int)) xs"
  by (induction xs) auto

text \<open>
  C8. \<^verbatim>\<open>list_sources()\<close> returns every row of \<open>sources\<close>, each as often as the table
  holds it, and of two returned rows the earlier one has the later or equal creation
  timestamp.
\<close>

theorem list_sources_descending:
  "mset (list_sources db) = mset (sources db) \<and>
   sorted_wrt (\<lambda>a b. s_created_at b \<le> s_created_at a) (list_sources db)"
proof -
  have "sorted (map (\<lambda>s. - s_created_at s) (list_sources db))"
    unfolding list_sources_def by (rule sorted_sort_key)
  then show ?thesis by (simp add: sorted_map_uminus list_sources_def)
qed

theorem list_sources_descending_witness:
  "map s_created_at (list_sources demo_db) = [30, 20, 10] \<and>
   sorted_wrt (\<lambda>a b. s_created_at b \<le> s_created_at a) (list_sources demo_db)"
proof -
  have "map s_created_at (list_sources demo_db) = [30, 20, 10]"
    by (simp add: list_sources_def demo_db_def web_source_def)
  with list_sources_descending[of demo_db] show ?thesis by simp
qed

section \<open>\<^verbatim>\<open>get_stats\<close>: the four counts\<close>

lemma get_stats_value:
  "get_stats db =
     Inr [''sources'' \<mapsto> int (length (sources db)),
          ''documents'' \<mapsto> int (length (documents db)),
          ''code_examples'' \<mapsto> int (length (code_examples db)),
          ''collections'' \<mapsto> int (length (collections db))]"
  by (simp add: get_stats_def tables_def count_rows_def)

text \<open>
  C6. \<^verbatim>\<open>get_stats()\<close> returns a dictionary whose keys are exactly \<open>sources\<close>,
  \<open>documents\<close>, \<open>code_examples\<close> and \<open>collections\<close>; the value under each key is the
  number of rows of that table, and every value is an integer that is not negative.
\<close>

theorem get_stats_counts:
  "\<exists>stats. get_stats db = Inr stats \<and>
     dom stats = {''sources'', ''documents'', ''code_examples'', ''collections''} \<and>
     stats ''sources'' = Some (int (length (sources db))) \<and>
     stats ''documents'' = Some (int (length (documents db))) \<and>
     stats ''code_examples'' = Some (int (length (code_examples db))) \<and>
     stats ''collections'' = Some (int (length (collections db))) \<and>
     (\<forall>t n. stats t = Some n \<longrightarrow> 0 \<le> n)"
proof -
  let ?stats = "[''sources'' \<mapsto> int (length (sources db)),
          ''documents'' \<mapsto> int (length (documents db)),
          ''code_examples'' \<mapsto> int (length (code_examples db)),
          ''collections'' \<mapsto> int (length (collections db))]"
  have d: "dom ?stats = {''sources'', ''documents'', ''code_examples'', ''collections''}"
    by (simp only: dom_fun_upd dom_empty option.distinct if_False insert_commute)
  have v: "?stats ''sources'' = Some (int (length (sources db)))"
     "?stats ''documents'' = Some (int (length (documents db)))"
     "?stats ''code_examples'' = Some (int (length (code_examples db)))"
     "?stats ''collections'' = Some (int (length (collections db)))"
    by simp_all
  have n: "\<forall>t n. ?stats t = Some n \<longrightarrow> 0 \<le> n"
    by (simp add: fun_upd_def)
  from get_stats_value d v n show ?thesis by blast
qed

theorem get_stats_counts_witness:
  "\<exists>stats. get_stats demo_db = Inr stats \<and>
     stats ''sources'' = Some 3 \<and> stats ''documents'' = Some 3 \<and>
     stats ''code_examples'' = Some 1 \<and> stats ''collections'' = Some 1 \<and>
     (stats ''sources'' = Some 3 \<longrightarrow> (0::int) \<le> 3)"
proof -
  from get_stats_counts[of demo_db] obtain stats where st: "get_stats demo_db = Inr stats"
    and v: "stats ''sources'' = Some (int (length (sources demo_db)))"
     "stats ''documents'' = Some (int (length (documents demo_db)))"
     "stats ''code_examples'' = Some (int (length (code_examples demo_db)))"
     "stats ''collections'' = Some (int (length (collections demo_db)))"
    by (elim exE conjE)
  have l: "length (sources demo_db) = 3" "length (documents demo_db) = 3"
    "length (code_examples demo_db) = 1" "length (collections demo_db) = 1"
    by (simp_all add: demo_db_def)
  from st v show ?thesis unfolding l by simp
qed

section \<open>What the reader writes\<close>




section \<open>\<^verbatim>\<open>export_to_json\<close>: three arrays, as long as the three query results\<close>

text \<open>
  C5. For every database, \<^verbatim>\<open>export_to_json(path)\<close> returns \<open>path\<close> and leaves at
  \<open>path\<close> a JSON document that is an object with the keys \<open>sources\<close>, \<open>documents\<close>
  and \<open>code_examples\<close>; under each key is an array, as long as the result of
  \<^verbatim>\<open>list_sources()\<close>, \<^verbatim>\<open>get_documents()\<close> and \<^verbatim>\<open>get_code_examples()\<close> respectively.
\<close>

theorem export_to_json_lengths:
  "fst (export_to_json db path fs) = path \<and>
   (\<exists>doc. snd (export_to_json db path fs) path = Some (JsonFile doc) \<and>
      object_keys doc = Some [''sources'', ''documents'', ''code_examples''] \<and>
      map_option length (array_at doc ''sources'') = Some (length (list_sources db)) \<and>
      map_option length (array_at doc ''documents'') = Some (length (get_documents db None)) \<and>
      map_option length (array_at doc ''code_examples'') =
        Some (length (get_code_examples db None)))"
  by (simp add: export_to_json_def Let_def)

theorem export_to_json_lengths_witness:
  "fst (export_to_json demo_db ''out.json'' Map.empty) = ''out.json'' \<and>
   (\<exists>doc. snd (export_to_json demo_db ''out.json'' Map.empty) ''out.json'' = Some (JsonFile doc) \<and>
      map_option length (array_at doc ''sources'') = Some 3 \<and>
      map_option length (array_at doc ''documents'') = Some 3 \<and>
      map_option length (array_at doc ''code_examples'') = Some 1)"
proof -
  have l: "length (list_sources demo_db) = 3" "length (get_documents demo_db None) = 3"
    by (simp_all add: list_sources_def get_documents_def demo_db_def)
  have c: "length (get_code_examples demo_db None) = 1"
    by (simp add: get_code_examples_def join_def demo_db_def web_source_def)
  from export_to_json_lengths[of demo_db "''out.json''" Map.empty] show ?thesis
    unfolding l c by blast
qed

section \<open>The entry point: the guard on the database file\<close>

text \<open>
  C7. When the database file is absent, the script prints its two lines and exits with
  code 1, having neither connected nor run a query. When the file is present, the script
  does what \<^verbatim>\<open>example_basic_usage\<close> does: after the banner it connects and queries
  the database, the first query being the count of \<open>sources\<close>.
\<close>

theorem main_guard:
  "snd (main None) = 1 \<and> filter is_query (fst (main None)) = [] \<and>
   Connect \<notin> set (fst (main None)) \<and>
   fst (main (Some db)) = fst (example_basic_usage db) \<and>
   take 5 (fst (main (Some db))) = [Print, Print, Print, Connect, Execute ''sources''] \<and>
   filter is_query (fst (main (Some db))) \<noteq> []"
proof -
  have a: "snd (main None) = 1 \<and> filter is_query (fst (main None)) = [] \<and>
           Connect \<notin> set (fst (main None))"
    by (simp add: main_def)
  have b: "fst (main (Some db)) = fst (example_basic_usage db)"
    by (simp add: main_def split: prod.splits option.splits)
  obtain stats where st: "get_stats db = Inr stats" using get_stats_value by blast
  have c: "take 5 (fst (example_basic_usage db)) =
             [Print, Print, Print, Connect, Execute ''sources'']"
    by (simp add: example_basic_usage_def st tables_def Let_def)
  have "filter is_query (take 5 (fst (example_basic_usage db))) \<noteq> []"
    unfolding c by simp
  then have "filter is_query (fst (example_basic_usage db)) \<noteq> []"
    by (metis append_take_drop_id filter_append append_is_Nil_conv)
  with a b c show ?thesis by simp
qed

theorem main_guard_witness:
  "snd (main None) = 1 \<and>
   take 5 (fst (main (Some demo_db))) = [Print, Print, Print, Connect, Execute ''sources'']"
  using main_guard[of demo_db] by blast

section \<open>\<^verbatim>\<open>get_embeddings\<close>: the documents that carry an embedding\<close>









end
